theory Spec2Isabelle
  imports Complex_Main "HOL-Library.Sublist"
begin

section \<open>Python strings\<close>

text \<open>
  A Python \<open>str\<close> is modelled as a \<open>string\<close> (one \<open>char\<close> per character, ASCII text).
  \<open>isspace\<close> lists the ASCII characters that \<open>str.strip()\<close> removes: tab, line feed,
  vertical tab, form feed, carriage return, the separators 28..31 and the space.
  \<open>upper\<close> is \<open>str.upper()\<close> on ASCII: the letters a..z move to A..Z, everything else stays.
\<close>

definition isspace :: "char \<Rightarrow> bool" where
  "isspace c = (let n = (of_char c :: nat) in (9 \<le> n \<and> n \<le> 13) \<or> (28 \<le> n \<and> n \<le> 32))"

definition strip :: "string \<Rightarrow> string" where
  "strip s = rev (dropWhile isspace (rev (dropWhile isspace s)))"

definition upper_char :: "char \<Rightarrow> char" where
  "upper_char c = (let n = (of_char c :: nat) in if 97 \<le> n \<and> n \<le> 122 then char_of (n - 32) else c)"

definition upper :: "string \<Rightarrow> string" where
  "upper s = map upper_char s"

text \<open>\<open>str_in sub s\<close> is Python's \<open>sub in s\<close> on strings: \<open>sub\<close> occurs in \<open>s\<close> as a
  contiguous block.\<close>

fun str_in :: "string \<Rightarrow> string \<Rightarrow> bool" where
  "str_in sub [] = (sub = [])"
| "str_in sub (c # cs) = (prefix sub (c # cs) \<or> str_in sub cs)"

section \<open>Exceptions, HTTP failures and the calls a request makes\<close>

text \<open>A Python exception, with the text \<open>str(e)\<close> gives.\<close>

datatype exn = Exception string

fun str :: "exn \<Rightarrow> string" where
  "str (Exception msg) = msg"

text \<open>
  What the HTTP layer answers when no \<open>QuestionResponse\<close> is produced: an
  \<open>HTTPException\<close> raised by the handler (status code and detail), or the framework's
  rejection of a request body that fails the \<open>QuestionRequest\<close> schema (status 422).
\<close>

datatype http_error = HTTPException nat string | RequestValidationError

fun status_code :: "http_error \<Rightarrow> nat" where
  "status_code (HTTPException code detail) = code"
| "status_code RequestValidationError = 422"

text \<open>
  The outbound calls of one request, in the order they are made: the classification chain,
  one \<open>embeddings.create\<close> per attempt, the sleeps of the retry loop, the database query
  and the OpenAI answer.
\<close>

datatype call =
    ClassificationInvoke string
  | EmbeddingsCreate string
  | TimeSleep int
  | DbQuery
  | OpenAIAnswer string

section \<open>core/constants.py\<close>

definition RETRY_MAX_ATTEMPTS :: nat where
  "RETRY_MAX_ATTEMPTS = 3"

definition RETRY_MIN_WAIT :: int where
  "RETRY_MIN_WAIT = 2"

definition RETRY_MAX_WAIT :: int where
  "RETRY_MAX_WAIT = 10"

definition RETRY_MULTIPLIER :: int where
  "RETRY_MULTIPLIER = 1"

definition COMPLIANCE_MESSAGE :: string where
  "COMPLIANCE_MESSAGE =
     ''This is not really what I was trained for, therefore I cannot answer. Try again.''"

section \<open>core/decorators.py: the retry decorator\<close>

text \<open>
  \<open>retry_on_api_error\<close> configures the tenacity library:
  \<^verbatim>\<open>retry(stop=stop_after_attempt(RETRY_MAX_ATTEMPTS),
        wait=wait_exponential(multiplier=RETRY_MULTIPLIER, min=RETRY_MIN_WAIT, max=RETRY_MAX_WAIT),
        reraise=True)\<close>
  The library itself is not part of the repository; its three pieces are written here as
  the library documents them. \<open>stop_after_attempt n\<close> stops once the number of the attempt
  just made reaches \<open>n\<close>. \<open>wait_exponential\<close> computes, from the number of the attempt
  just made, \<open>max(max(0, min), min(multiplier * 2 ** (attempt_number - 1), max))\<close>.
\<close>

definition stop_after_attempt :: "nat \<Rightarrow> nat \<Rightarrow> bool" where
  "stop_after_attempt max_attempt_number attempt_number = (max_attempt_number \<le> attempt_number)"

definition wait_exponential :: "int \<Rightarrow> int \<Rightarrow> int \<Rightarrow> nat \<Rightarrow> int" where
  "wait_exponential multiplier min_wait max_wait attempt_number =
     max (max 0 min_wait) (min (multiplier * 2 ^ (attempt_number - 1)) max_wait)"

text \<open>
  What the retry loop does, in order: \<open>Attempt n\<close> is the \<open>n\<close>-th call of the wrapped
  operation, \<open>Sleep w\<close> a wait of \<open>w\<close> seconds.
\<close>

datatype retry_event = Attempt nat | Sleep int

text \<open>
  The loop of the decorated function. The wrapped operation is a remote call, so its
  outcome may change from one attempt to the next: \<open>fn n\<close> is the outcome of the \<open>n\<close>-th
  call (\<open>Inl\<close> the exception it raises, \<open>Inr\<close> the value it returns). The loop starts at
  attempt 1. A value is returned at once. After an exception the stop condition is asked:
  when it holds, \<open>reraise=True\<close> raises the exception of this last attempt; otherwise the
  loop sleeps \<open>wait attempt_number\<close> and makes the next attempt.
\<close>

function retry_call ::
  "nat \<Rightarrow> (nat \<Rightarrow> int) \<Rightarrow> (nat \<Rightarrow> exn + 'a) \<Rightarrow> nat \<Rightarrow> (exn + 'a) \<times> retry_event list" where
  "retry_call max_attempt_number wait fn attempt_number =
     (case fn attempt_number of
        Inr v \<Rightarrow> (Inr v, [Attempt attempt_number])
      | Inl e \<Rightarrow>
          if stop_after_attempt max_attempt_number attempt_number
          then (Inl e, [Attempt attempt_number])
          else (let (r, evs) = retry_call max_attempt_number wait fn (Suc attempt_number)
                in (r, Attempt attempt_number # Sleep (wait attempt_number) # evs)))"
  by pat_completeness auto
termination
  by (relation "measure (\<lambda>(m, w, f, n). m - n)") (auto simp: stop_after_attempt_def)

declare retry_call.simps [simp del]

definition retry_on_api_error :: "(nat \<Rightarrow> exn + 'a) \<Rightarrow> (exn + 'a) \<times> retry_event list" where
  "retry_on_api_error fn =
     retry_call RETRY_MAX_ATTEMPTS
       (wait_exponential RETRY_MULTIPLIER RETRY_MIN_WAIT RETRY_MAX_WAIT) fn 1"

fun attempts :: "retry_event list \<Rightarrow> nat" where
  "attempts [] = 0"
| "attempts (Attempt n # evs) = Suc (attempts evs)"
| "attempts (Sleep w # evs) = attempts evs"

fun sleeps :: "retry_event list \<Rightarrow> int list" where
  "sleeps [] = []"
| "sleeps (Attempt n # evs) = sleeps evs"
| "sleeps (Sleep w # evs) = w # sleeps evs"

section \<open>db/models.py and schemas/question.py\<close>

text \<open>
  A row of the table \<open>faqs\<close>. The columns \<open>embedding\<close> and \<open>collection_name\<close> are nullable.
  Similarity scores and vector components are Python floats; they are modelled as the
  rational numbers they denote (no NaN, no infinity, no rounding of arithmetic).
\<close>

record FAQ =
  faq_id :: int
  faq_question :: string
  faq_answer :: string
  faq_embedding :: "rat list option"
  faq_collection_name :: "string option"

record QuestionResponse =
  source :: string
  matched_question :: string
  answer :: string
  similarity_score :: "rat option"

text \<open>The constraints of the field \<open>user_question\<close> of \<open>QuestionRequest\<close>:
  \<open>min_length=1, max_length=1000\<close>.\<close>

definition QuestionRequest_valid :: "string \<Rightarrow> bool" where
  "QuestionRequest_valid user_question =
     (1 \<le> length user_question \<and> length user_question \<le> 1000)"

section \<open>The collaborators of a request\<close>

text \<open>
  Everything a request reads from outside the handler: the reply of the classification
  chain (the \<open>content\<close> of the result, or the exception \<open>invoke\<close> raises), the outcome of
  each attempt of \<open>client.embeddings.create\<close>, the answer of \<open>get_openai_answer\<close> (module
  \<open>openai_service\<close>), the database's cosine distance operator, the rows of \<open>faqs\<close>, and
  \<open>settings.similarity_threshold\<close>.

  The query of \<open>search_similar_faq\<close> orders by similarity alone, and SQL leaves the order
  of rows with equal keys to the database: \<open>faqs\<close> lists the rows in the order in which the
  database prefers them among equals. The order of insertion is that of \<open>faq_id\<close>
  (an auto-incremented primary key). The database query itself is taken to succeed.
\<close>

record world =
  classification_chain_invoke :: "string \<Rightarrow> exn + string"
  embeddings_create :: "string \<Rightarrow> nat \<Rightarrow> exn + rat list"
  get_openai_answer :: "string \<Rightarrow> exn + string"
  cosine_distance :: "rat list \<Rightarrow> rat list \<Rightarrow> rat"
  faqs :: "FAQ list"
  similarity_threshold :: rat

text \<open>
  Python's \<open>round(x, ndigits)\<close> on a float: the decimal with \<open>ndigits\<close> digits nearest to
  the value of \<open>x\<close>, a tie going to the even last digit.
\<close>

definition py_round :: "rat \<Rightarrow> nat \<Rightarrow> rat" where
  "py_round x ndigits =
     (let m = 10 ^ ndigits;
          y = x * m;
          f = \<lfloor>y\<rfloor>;
          r = y - of_int f
      in of_int (if r < 1 / 2 then f else if 1 / 2 < r then f + 1
                 else if even f then f else f + 1) / m)"

section \<open>services/router.py\<close>

definition classify_question :: "world \<Rightarrow> string \<Rightarrow> bool \<times> call list" where
  "classify_question w user_question =
     (case classification_chain_invoke w user_question of
        Inr content \<Rightarrow>
          (let classification = upper (strip content)
           in (str_in ''IT_RELATED'' classification \<or> str_in ''YES'' classification,
               [ClassificationInvoke user_question]))
      | Inl e \<Rightarrow> (True, [ClassificationInvoke user_question]))"

definition get_compliance_response :: string where
  "get_compliance_response = COMPLIANCE_MESSAGE"

definition route_question :: "world \<Rightarrow> string \<Rightarrow> (string \<times> bool) \<times> call list" where
  "route_question w user_question =
     (case classify_question w user_question of
        (is_it_related, calls) \<Rightarrow>
          if is_it_related then ((''it_related'', True), calls)
          else ((''compliance'', False), calls))"

section \<open>services/embeddings.py\<close>

fun embedding_call :: "string \<Rightarrow> retry_event \<Rightarrow> call" where
  "embedding_call input (Attempt n) = EmbeddingsCreate input"
| "embedding_call input (Sleep w) = TimeSleep w"

definition generate_embedding :: "world \<Rightarrow> string \<Rightarrow> (exn + rat list) \<times> call list" where
  "generate_embedding w input =
     (case retry_on_api_error (embeddings_create w input) of
        (r, evs) \<Rightarrow> (r, map (embedding_call input) evs))"

section \<open>services/similarity.py\<close>

text \<open>\<open>if collection_name:\<close> adds the filter only for a non-empty name; a row whose
  \<open>collection_name\<close> is NULL never equals it.\<close>

definition collection_filter :: "string option \<Rightarrow> FAQ \<Rightarrow> bool" where
  "collection_filter collection_name f =
     (case collection_name of
        None \<Rightarrow> True
      | Some c \<Rightarrow> if c = [] then True else faq_collection_name f = Some c)"

text \<open>The rows the query compares, each with its label \<open>similarity\<close>
  (\<open>1 - FAQ.embedding.cosine_distance(query_embedding)\<close>): those whose embedding is not
  NULL and that pass the collection filter.\<close>

definition similarity_rows :: "world \<Rightarrow> rat list \<Rightarrow> string option \<Rightarrow> (FAQ \<times> rat) list" where
  "similarity_rows w query_embedding collection_name =
     List.map_filter
       (\<lambda>f. case faq_embedding f of
              None \<Rightarrow> None
            | Some e \<Rightarrow>
                if collection_filter collection_name f
                then Some (f, 1 - cosine_distance w e query_embedding)
                else None)
       (faqs w)"

text \<open>\<open>order_by(desc('similarity')).first()\<close>: no row when there is none, otherwise a row
  of greatest similarity, the earliest of them in the order of the list.\<close>

fun order_by_desc_first :: "('a \<times> rat) list \<Rightarrow> ('a \<times> rat) option" where
  "order_by_desc_first [] = None"
| "order_by_desc_first (r # rs) =
     (case order_by_desc_first rs of
        None \<Rightarrow> Some r
      | Some b \<Rightarrow> if snd r < snd b then Some b else Some r)"

definition search_similar_faq ::
  "world \<Rightarrow> string \<Rightarrow> string option \<Rightarrow> (exn + FAQ option \<times> rat) \<times> call list" where
  "search_similar_faq w user_question collection_name =
     (case generate_embedding w user_question of
        (Inl e, calls) \<Rightarrow> (Inl e, calls)
      | (Inr query_embedding, calls) \<Rightarrow>
          (case order_by_desc_first (similarity_rows w query_embedding collection_name) of
             None \<Rightarrow> (Inr (None, 0), calls @ [DbQuery])
           | Some (best_faq, similarity) \<Rightarrow>
               (Inr (Some best_faq, similarity), calls @ [DbQuery])))"

definition find_best_match ::
  "world \<Rightarrow> string \<Rightarrow> rat \<Rightarrow> string option \<Rightarrow> (exn + FAQ option \<times> rat \<times> bool) \<times> call list" where
  "find_best_match w user_question threshold collection_name =
     (case search_similar_faq w user_question collection_name of
        (Inl e, calls) \<Rightarrow> (Inl e, calls)
      | (Inr (faq, score), calls) \<Rightarrow>
          if faq \<noteq> None \<and> threshold \<le> score
          then (Inr (faq, score, True), calls)
          else (Inr (faq, score, False), calls))"

section \<open>api/endpoints.py\<close>

text \<open>The \<open>except Exception\<close> clause of the handler.\<close>

definition internal_error :: "exn \<Rightarrow> http_error" where
  "internal_error e = HTTPException 500 (''Error processing your question: '' @ str e)"

text \<open>The handler \<open>ask_question\<close>, given the \<open>user_question\<close> of a request that passed the
  schema. It returns the response or the HTTP failure, and the outbound calls it made.\<close>

definition ask_question :: "world \<Rightarrow> string \<Rightarrow> (http_error + QuestionResponse) \<times> call list" where
  "ask_question w request_user_question =
     (let user_question = strip request_user_question in
      if user_question = [] then (Inl (HTTPException 400 ''Question cannot be empty''), [])
      else
        (case route_question w user_question of
           ((route_type, should_continue), c1) \<Rightarrow>
             if \<not> should_continue
             then (Inr \<lparr>source = ''compliance'', matched_question = ''N/A'',
                        answer = get_compliance_response, similarity_score = None\<rparr>, c1)
             else
               (case find_best_match w user_question (similarity_threshold w) None of
                  (Inl e, c2) \<Rightarrow> (Inl (internal_error e), c1 @ c2)
                | (Inr (Some faq, score, True), c2) \<Rightarrow>
                    (Inr \<lparr>source = ''local'', matched_question = faq_question faq,
                          answer = faq_answer faq,
                          similarity_score = Some (py_round score 4)\<rparr>, c1 @ c2)
                | (Inr (faq, score, is_above_threshold), c2) \<Rightarrow>
                    (case get_openai_answer w user_question of
                       Inl e \<Rightarrow>
                         (Inl (internal_error e), c1 @ c2 @ [OpenAIAnswer user_question])
                     | Inr openai_answer \<Rightarrow>
                         (Inr \<lparr>source = ''openai'', matched_question = ''N/A'',
                               answer = openai_answer,
                               similarity_score =
                                 (if faq \<noteq> None then Some (py_round score 4) else None)\<rparr>,
                          c1 @ c2 @ [OpenAIAnswer user_question])))))"

text \<open>The route \<open>POST /ask-question\<close> for an authenticated request: the framework checks
  the body against \<open>QuestionRequest\<close> and only then calls the handler.\<close>

definition post_ask_question ::
  "world \<Rightarrow> string \<Rightarrow> (http_error + QuestionResponse) \<times> call list" where
  "post_ask_question w user_question =
     (if QuestionRequest_valid user_question then ask_question w user_question
      else (Inl RequestValidationError, []))"

section \<open>Example data\<close>

text \<open>
  A small corpus and a world in which every collaborator answers, used to run the
  definitions on concrete inputs. \<open>example_cosine_distance\<close> is the cosine distance
  \<open>1 - a \<bullet> b / (|a| |b|)\<close>, exact on the vectors used below, whose norms are 5, 13 and 17;
  a vector whose squared length is not in this table (the zero vector among them) is
  divided by 1.
\<close>

definition dot :: "rat list \<Rightarrow> rat list \<Rightarrow> rat" where
  "dot a b = sum_list (map2 (*) a b)"

definition example_norm :: "rat list \<Rightarrow> rat" where
  "example_norm a =
     (let n = dot a a
      in if n = 25 then 5 else if n = 169 then 13 else if n = 289 then 17 else 1)"

definition example_cosine_distance :: "rat list \<Rightarrow> rat list \<Rightarrow> rat" where
  "example_cosine_distance a b = 1 - dot a b / (example_norm a * example_norm b)"

definition faq_reset :: FAQ where
  "faq_reset = \<lparr>faq_id = 1, faq_question = ''How do I reset my password?'',
     faq_answer = ''Use the reset link on the sign-in page.'',
     faq_embedding = Some [3, 4], faq_collection_name = Some ''default''\<rparr>"

definition faq_email :: FAQ where
  "faq_email = \<lparr>faq_id = 2, faq_question = ''How do I change my email address?'',
     faq_answer = ''Open the profile settings.'',
     faq_embedding = Some [15, 8], faq_collection_name = Some ''default''\<rparr>"


definition faq_recover :: FAQ where
  "faq_recover = \<lparr>faq_id = 4, faq_question = ''How can I recover my password?'',
     faq_answer = ''Ask for a recovery mail.'',
     faq_embedding = Some [3, 4], faq_collection_name = Some ''default''\<rparr>"

definition example_world :: world where
  "example_world =
     \<lparr>classification_chain_invoke = (\<lambda>q. Inr ''IT_RELATED''),
      embeddings_create = (\<lambda>input n. Inr [5, 12]),
      get_openai_answer = (\<lambda>q. Inr ''Generated answer.''),
      cosine_distance = example_cosine_distance,
      faqs = [faq_reset, faq_email],
      similarity_threshold = 85 / 100\<rparr>"

section \<open>The retry decorator: at most three attempts, the last error re-raised\<close>

lemma retry_call_last:
  "retry_call m wt fn m = (fn m, [Attempt m])"
  by (subst retry_call.simps) (simp add: stop_after_attempt_def split: sum.split)

text \<open>With the constants of \<open>constants.py\<close> the loop is three nested attempts.\<close>

lemma retry_on_api_error_unfold:
  "retry_on_api_error fn =
     (case fn 1 of Inr v \<Rightarrow> (Inr v, [Attempt 1])
      | Inl e1 \<Rightarrow>
         (case fn 2 of Inr v \<Rightarrow> (Inr v, [Attempt 1, Sleep 2, Attempt 2])
          | Inl e2 \<Rightarrow> (fn 3, [Attempt 1, Sleep 2, Attempt 2, Sleep 2, Attempt 3])))"
proof -
  have w1: "wait_exponential RETRY_MULTIPLIER RETRY_MIN_WAIT RETRY_MAX_WAIT (Suc 0) = 2"
    and w2: "wait_exponential RETRY_MULTIPLIER RETRY_MIN_WAIT RETRY_MAX_WAIT 2 = 2"
    by (simp_all add: wait_exponential_def RETRY_MULTIPLIER_def RETRY_MIN_WAIT_def
          RETRY_MAX_WAIT_def)
  have l3: "retry_call 3 wt fn 3 = (fn 3, [Attempt 3])" for wt
    by (rule retry_call_last)
  have l2: "retry_call 3 wt fn 2 =
     (case fn 2 of Inr v \<Rightarrow> (Inr v, [Attempt 2])
      | Inl e \<Rightarrow> (fn 3, [Attempt 2, Sleep (wt 2), Attempt 3]))" for wt
    by (subst retry_call.simps) (simp add: stop_after_attempt_def l3 split: sum.split)
  have l1: "retry_call 3 wt fn (Suc 0) =
     (case fn (Suc 0) of Inr v \<Rightarrow> (Inr v, [Attempt (Suc 0)])
      | Inl e \<Rightarrow> (fst (retry_call 3 wt fn 2),
           Attempt (Suc 0) # Sleep (wt (Suc 0)) # snd (retry_call 3 wt fn 2)))" for wt
    by (subst retry_call.simps)
       (simp add: stop_after_attempt_def split: sum.split prod.split flip: numeral_2_eq_2)
  show ?thesis
    unfolding retry_on_api_error_def RETRY_MAX_ATTEMPTS_def
    by (simp add: l1 l2 w1 w2 split: sum.split)
qed

text \<open>
  C5. The decorated function calls the wrapped operation at most \<open>RETRY_MAX_ATTEMPTS = 3\<close>
  times. When the first, second or third attempt returns a value, that value is returned
  and no later attempt is made; when all three attempts raise, the exception of the third
  is raised. The loop sleeps after each failed attempt but the last, and the wait after
  failed attempt number \<open>attempt\<close> is
  \<open>min RETRY_MAX_WAIT (max RETRY_MIN_WAIT (RETRY_MULTIPLIER * 2 ^ (attempt - 1)))\<close>,
  which is 2 seconds both times.
\<close>

theorem retry_on_api_error_policy:
  fixes fn :: "nat \<Rightarrow> exn + 'a"
  shows
    "attempts (snd (retry_on_api_error fn)) \<le> RETRY_MAX_ATTEMPTS
     \<and> (fn 1 = Inr v \<longrightarrow> retry_on_api_error fn = (Inr v, [Attempt 1]))
     \<and> (fn 1 = Inl e1 \<and> fn 2 = Inr v \<longrightarrow>
          retry_on_api_error fn = (Inr v, [Attempt 1, Sleep 2, Attempt 2]))
     \<and> (fn 1 = Inl e1 \<and> fn 2 = Inl e2 \<and> fn 3 = Inr v \<longrightarrow>
          retry_on_api_error fn = (Inr v, [Attempt 1, Sleep 2, Attempt 2, Sleep 2, Attempt 3]))
     \<and> (fn 1 = Inl e1 \<and> fn 2 = Inl e2 \<and> fn 3 = Inl e3 \<longrightarrow>
          retry_on_api_error fn = (Inl e3, [Attempt 1, Sleep 2, Attempt 2, Sleep 2, Attempt 3]))
     \<and> sleeps (snd (retry_on_api_error fn)) =
          map (\<lambda>attempt. min RETRY_MAX_WAIT
                 (max RETRY_MIN_WAIT (RETRY_MULTIPLIER * 2 ^ (attempt - 1))))
            [1 ..< attempts (snd (retry_on_api_error fn))]"
proof -
  have upt2: "[Suc 0 ..< 2] = [Suc 0]" and upt3: "[Suc 0 ..< 3] = [Suc 0, 2]"
    by (simp_all add: upt_rec)
  show ?thesis
    by (cases "fn 1"; cases "fn 2"; cases "fn 3")
       (simp_all add: retry_on_api_error_unfold RETRY_MAX_ATTEMPTS_def RETRY_MAX_WAIT_def
          RETRY_MIN_WAIT_def RETRY_MULTIPLIER_def upt2 upt3)
qed

theorem retry_on_api_error_policy_witness:
  "retry_on_api_error (\<lambda>n. Inr (7 :: nat)) = (Inr 7, [Attempt 1])
   \<and> retry_on_api_error (\<lambda>n. if n < 2 then Inl (Exception ''timeout'') else Inr (7 :: nat))
       = (Inr 7, [Attempt 1, Sleep 2, Attempt 2])
   \<and> retry_on_api_error (\<lambda>n. if n < 3 then Inl (Exception ''timeout'') else Inr (7 :: nat))
       = (Inr 7, [Attempt 1, Sleep 2, Attempt 2, Sleep 2, Attempt 3])
   \<and> retry_on_api_error
         (\<lambda>n. if n = 1 then Inl (Exception ''first'')
              else if n = 2 then Inl (Exception ''second'')
              else (Inl (Exception ''third'') :: exn + nat))
       = (Inl (Exception ''third''), [Attempt 1, Sleep 2, Attempt 2, Sleep 2, Attempt 3])"
  using
    retry_on_api_error_policy [where fn = "\<lambda>n. Inr (7 :: nat)" and v = 7]
    retry_on_api_error_policy
      [where fn = "\<lambda>n. if n < 2 then Inl (Exception ''timeout'') else Inr (7 :: nat)"
         and v = 7 and ?e1.0 = "Exception ''timeout''"]
    retry_on_api_error_policy
      [where fn = "\<lambda>n. if n < 3 then Inl (Exception ''timeout'') else Inr (7 :: nat)"
         and v = 7 and ?e1.0 = "Exception ''timeout''" and ?e2.0 = "Exception ''timeout''"]
    retry_on_api_error_policy
      [where fn = "\<lambda>n. if n = 1 then Inl (Exception ''first'')
              else if n = 2 then Inl (Exception ''second'')
              else (Inl (Exception ''third'') :: exn + nat)"
         and ?e1.0 = "Exception ''first''" and ?e2.0 = "Exception ''second''"
         and ?e3.0 = "Exception ''third''"]
  by simp

section \<open>The classifier: parsing the reply, failing open\<close>

text \<open>\<open>str_in\<close> is the contiguous-sublist relation of the library.\<close>

lemma str_in_sublist: "str_in sub s = sublist sub s"
  by (induction s) (auto simp: sublist_Cons_right)

text \<open>Stripping characters from either end does not change whether a block occurs that
  neither starts nor ends with such a character.\<close>

lemma sublist_dropWhile:
  assumes "sub \<noteq> []" "\<not> P (hd sub)"
  shows "sublist sub (dropWhile P s) = sublist sub s"
proof (induction s)
  case Nil
  show ?case by simp
next
  case (Cons c cs)
  show ?case
  proof (cases "P c")
    case True
    have "\<not> prefix sub (c # cs)"
      using assms True by (cases sub) auto
    with True Cons show ?thesis by (simp add: sublist_Cons_right)
  next
    case False
    then show ?thesis by simp
  qed
qed

lemma sublist_strip:
  assumes "sub \<noteq> []" "\<not> isspace (hd sub)" "\<not> isspace (last sub)"
  shows "sublist sub (strip s) = sublist sub s"
proof -
  have "sublist sub (strip s) = sublist (rev sub) (dropWhile isspace (rev (dropWhile isspace s)))"
    unfolding strip_def by (metis sublist_rev rev_rev_ident)
  also have "\<dots> = sublist (rev sub) (rev (dropWhile isspace s))"
    using assms by (intro sublist_dropWhile) (simp_all add: hd_rev)
  also have "\<dots> = sublist sub (dropWhile isspace s)"
    by simp
  also have "\<dots> = sublist sub s"
    using assms by (intro sublist_dropWhile)
  finally show ?thesis .
qed

lemma isspace_upper_char: "isspace (upper_char c) = isspace c"
proof (cases "97 \<le> (of_char c :: nat) \<and> (of_char c :: nat) \<le> 122")
  case True
  then have "(of_char c - 32 :: nat) < 256"
    by arith
  then have "(of_char c - 32 :: nat) mod 256 = of_char c - 32"
    by (rule mod_less)
  with True show ?thesis
    by (auto simp: isspace_def upper_char_def Let_def)
next
  case False
  then show ?thesis
    by (auto simp: upper_char_def Let_def)
qed

lemma upper_strip: "upper (strip s) = strip (upper s)"
proof -
  have comp: "isspace \<circ> upper_char = isspace"
    by (rule ext) (simp add: isspace_upper_char)
  show ?thesis
    by (simp add: upper_def strip_def rev_map dropWhile_map comp)
qed

lemma str_in_upper_strip:
  assumes "sub \<noteq> []" "\<not> isspace (hd sub)" "\<not> isspace (last sub)"
  shows "str_in sub (upper (strip s)) = str_in sub (upper s)"
  using assms by (simp add: str_in_sublist upper_strip sublist_strip)

text \<open>Every path of the matcher starts with an \<open>embeddings.create\<close> call.\<close>

lemma generate_embedding_first_call:
  "\<exists>rest. snd (generate_embedding w input) = EmbeddingsCreate input # rest"
  by (simp add: generate_embedding_def retry_on_api_error_unfold split: sum.split prod.split)

lemma search_similar_faq_first_call:
  "\<exists>rest. snd (search_similar_faq w q coll) = EmbeddingsCreate q # rest"
proof -
  obtain r calls where g: "generate_embedding w q = (r, calls)"
    by (cases "generate_embedding w q")
  obtain rest where c: "calls = EmbeddingsCreate q # rest"
    using generate_embedding_first_call [of w q] g by auto
  show ?thesis
    by (cases r) (simp_all add: search_similar_faq_def g c split: option.split prod.split)
qed

lemma find_best_match_first_call:
  "\<exists>rest. snd (find_best_match w q t coll) = EmbeddingsCreate q # rest"
proof -
  obtain r calls where g: "search_similar_faq w q coll = (r, calls)"
    by (cases "search_similar_faq w q coll")
  obtain rest where c: "calls = EmbeddingsCreate q # rest"
    using search_similar_faq_first_call [of w q coll] g by auto
  show ?thesis
    by (cases r) (simp_all add: find_best_match_def g c split: prod.split)
qed

lemma ask_question_in_domain_calls:
  assumes "strip raw = q" "q \<noteq> []" "fst (classify_question w q)"
  shows "\<exists>rest. snd (ask_question w raw) = ClassificationInvoke q # EmbeddingsCreate q # rest"
proof -
  have cl: "classify_question w q = (True, [ClassificationInvoke q])"
    using assms(3) by (auto simp: classify_question_def Let_def split: sum.splits)
  obtain r calls where g: "find_best_match w q (similarity_threshold w) None = (r, calls)"
    by (cases "find_best_match w q (similarity_threshold w) None")
  obtain rest where c: "calls = EmbeddingsCreate q # rest"
    using find_best_match_first_call [of w q "similarity_threshold w" None] g by auto
  show ?thesis
    using assms(1,2)
    by (auto simp: ask_question_def route_question_def cl g c Let_def
          split: sum.split prod.split option.split bool.split)
qed

text \<open>
  C4. When the call of the classification chain raises, \<open>classify_question\<close> returns
  \<open>True\<close> (IT-related) instead of raising, \<open>route_question\<close> lets the request continue, and
  the handler goes on to the matcher: its next outbound call is the embedding of the
  question.
\<close>

theorem classify_question_fails_open:
  assumes "classification_chain_invoke w q = Inl e"
  shows "classify_question w q = (True, [ClassificationInvoke q])
     \<and> route_question w q = ((''it_related'', True), [ClassificationInvoke q])
     \<and> (strip raw = q \<and> q \<noteq> [] \<longrightarrow>
          take 2 (snd (ask_question w raw)) = [ClassificationInvoke q, EmbeddingsCreate q])"
proof -
  have cl: "classify_question w q = (True, [ClassificationInvoke q])"
    using assms by (simp add: classify_question_def)
  have "take 2 (snd (ask_question w raw)) = [ClassificationInvoke q, EmbeddingsCreate q]"
    if "strip raw = q" "q \<noteq> []"
  proof -
    have "fst (classify_question w q)" by (simp add: cl)
    from ask_question_in_domain_calls [OF that this] show ?thesis by auto
  qed
  then show ?thesis
    by (simp add: cl route_question_def)
qed

theorem classify_question_fails_open_witness:
  "classify_question
      (example_world\<lparr>classification_chain_invoke := (\<lambda>q. Inl (Exception ''Connection error.''))\<rparr>)
      ''How do I reset my password?''
     = (True, [ClassificationInvoke ''How do I reset my password?''])
   \<and> route_question
      (example_world\<lparr>classification_chain_invoke := (\<lambda>q. Inl (Exception ''Connection error.''))\<rparr>)
      ''How do I reset my password?''
     = ((''it_related'', True), [ClassificationInvoke ''How do I reset my password?''])
   \<and> take 2 (snd (ask_question
      (example_world\<lparr>classification_chain_invoke := (\<lambda>q. Inl (Exception ''Connection error.''))\<rparr>)
      ''  How do I reset my password? ''))
     = [ClassificationInvoke ''How do I reset my password?'',
        EmbeddingsCreate ''How do I reset my password?'']"
proof -
  have h: "classification_chain_invoke
      (example_world\<lparr>classification_chain_invoke := (\<lambda>q. Inl (Exception ''Connection error.''))\<rparr>)
      ''How do I reset my password?'' = Inl (Exception ''Connection error.'')"
    by simp
  have s: "strip ''  How do I reset my password? '' = ''How do I reset my password?''"
    by (simp add: strip_def isspace_def)
  show ?thesis
    using classify_question_fails_open [OF h, of "''  How do I reset my password? ''"] s
    by simp
qed

text \<open>
  C6, as stated, with \<open>IT_RELATED\<close> (the token the prompt asks for) as the in-domain marker:
  the reply \<open>yes\<close> does not contain the marker after uppercasing, and the question is
  classified IT-related all the same, because the code also accepts \<open>YES\<close>.
\<close>

theorem classify_question_single_marker_counterexample:
  "fst (classify_question (example_world\<lparr>classification_chain_invoke := (\<lambda>q. Inr ''yes'')\<rparr>)
          ''How do I reset my password?'')
   \<and> \<not> str_in ''IT_RELATED'' (upper (strip ''yes''))"
  by code_simp

text \<open>
  C6, amended. For every reply text of the classification chain, \<open>classify_question\<close>
  returns \<open>True\<close> (IT-related) if and only if the uppercased text contains \<open>IT_RELATED\<close> or
  contains \<open>YES\<close>, as a contiguous block anywhere in it; every other text gives \<open>False\<close>.
  The \<open>strip()\<close> the code applies first makes no difference.
\<close>

theorem classify_question_markers:
  assumes "classification_chain_invoke w q = Inr content"
  shows "fst (classify_question w q) =
           (str_in ''IT_RELATED'' (upper content) \<or> str_in ''YES'' (upper content))"
proof -
  have "str_in ''IT_RELATED'' (upper (strip content)) = str_in ''IT_RELATED'' (upper content)"
    by (rule str_in_upper_strip) (simp_all add: isspace_def)
  moreover
  have "str_in ''YES'' (upper (strip content)) = str_in ''YES'' (upper content)"
    by (rule str_in_upper_strip) (simp_all add: isspace_def)
  ultimately show ?thesis
    using assms by (simp add: classify_question_def)
qed

theorem classify_question_markers_witness:
  "fst (classify_question (example_world\<lparr>classification_chain_invoke := (\<lambda>q. Inr '' it_related '')\<rparr>)
          ''How do I reset my password?'')
   \<and> fst (classify_question (example_world\<lparr>classification_chain_invoke := (\<lambda>q. Inr ''Yes.'')\<rparr>)
          ''How do I reset my password?'')
   \<and> \<not> fst (classify_question (example_world\<lparr>classification_chain_invoke := (\<lambda>q. Inr ''OFF_TOPIC'')\<rparr>)
          ''What is the weather today?'')"
proof -
  have u1: "upper '' it_related '' = '' IT_RELATED ''"
    and u2: "upper ''Yes.'' = ''YES.''"
    and u3: "upper ''OFF_TOPIC'' = ''OFF_TOPIC''"
    by code_simp+
  show ?thesis
    using
      classify_question_markers
        [of "example_world\<lparr>classification_chain_invoke := (\<lambda>q. Inr '' it_related '')\<rparr>"
            "''How do I reset my password?''" "'' it_related ''"]
      classify_question_markers
        [of "example_world\<lparr>classification_chain_invoke := (\<lambda>q. Inr ''Yes.'')\<rparr>"
            "''How do I reset my password?''" "''Yes.''"]
      classify_question_markers
        [of "example_world\<lparr>classification_chain_invoke := (\<lambda>q. Inr ''OFF_TOPIC'')\<rparr>"
            "''What is the weather today?''" "''OFF_TOPIC''"]
    by (simp add: u1 u2 u3)
qed

section \<open>The handler: validation, the three kinds of response\<close>

text \<open>\<open>round(x, n)\<close> moves \<open>x\<close> by at most half a unit of the \<open>n\<close>-th decimal.\<close>

lemma py_round_error: "\<bar>py_round x n - x\<bar> \<le> 1 / (2 * 10 ^ n)"
proof -
  define m :: rat where "m = 10 ^ n"
  define y where "y = x * m"
  define f where "f = \<lfloor>y\<rfloor>"
  define r where "r = y - of_int f"
  define k where "k = (if r < 1 / 2 then f else if 1 / 2 < r then f + 1
                 else if even f then f else f + 1)"
  have m: "0 < m" by (simp add: m_def)
  have r0: "0 \<le> r" and r1: "r < 1"
    unfolding r_def f_def by linarith+
  have "\<bar>of_int k - y\<bar> \<le> 1 / 2"
    using r0 r1 by (auto simp: k_def r_def)
  moreover have "py_round x n - x = (of_int k - y) / m"
    using m by (simp add: py_round_def Let_def k_def r_def f_def y_def m_def diff_divide_distrib)
  moreover have "\<bar>of_int k - y\<bar> / m \<le> (1 / 2) / m"
    by (rule divide_right_mono) (use m calculation in simp_all)
  ultimately have "\<bar>py_round x n - x\<bar> \<le> (1 / 2) / m"
    using m by simp
  then show ?thesis by (simp add: m_def)
qed

text \<open>The matcher never calls the OpenAI answer.\<close>

lemma search_similar_faq_no_answer:
  "OpenAIAnswer x \<notin> set (snd (search_similar_faq w q coll))"
  by (auto simp: search_similar_faq_def generate_embedding_def retry_on_api_error_unfold
        split: sum.splits prod.splits option.splits)

lemma classify_true:
  "fst (classify_question w q) \<Longrightarrow> classify_question w q = (True, [ClassificationInvoke q])"
  by (auto simp: classify_question_def Let_def split: sum.splits)

lemma classify_false:
  "\<not> fst (classify_question w q) \<Longrightarrow> classify_question w q = (False, [ClassificationInvoke q])"
  by (auto simp: classify_question_def Let_def split: sum.splits)

lemma search_similar_faq_empty:
  assumes "fst (generate_embedding w q) = Inr qe" "similarity_rows w qe coll = []"
  shows "fst (search_similar_faq w q coll) = Inr (None, 0)"
  using assms by (cases "generate_embedding w q") (simp add: search_similar_faq_def)

lemma strip_example: "strip ''  How do I reset my password? '' = ''How do I reset my password?''"
  by (simp add: strip_def isspace_def)

text \<open>
  C3. For every question that \<open>classify_question\<close> classifies as not IT-related, the
  handler returns the response with \<open>source = 'compliance'\<close> (the tag of the off-topic
  path), \<open>matched_question = 'N/A'\<close> (the sentinel for no matched question), the fixed text
  \<open>COMPLIANCE_MESSAGE\<close> as answer and no similarity score; the only outbound call of the
  request is the classification, so neither the embedding call nor the database query of
  the matcher is made.
\<close>

theorem ask_question_off_topic:
  assumes "strip raw = q" "q \<noteq> []" "\<not> fst (classify_question w q)"
  shows "ask_question w raw =
           (Inr \<lparr>source = ''compliance'', matched_question = ''N/A'',
                 answer = COMPLIANCE_MESSAGE, similarity_score = None\<rparr>,
            [ClassificationInvoke q])"
  using assms(1,2) classify_false [OF assms(3)]
  by (simp add: ask_question_def route_question_def get_compliance_response_def)

theorem ask_question_off_topic_witness:
  "ask_question (example_world\<lparr>classification_chain_invoke := (\<lambda>q. Inr ''OFF_TOPIC'')\<rparr>)
      '' What is the weather today? ''
     = (Inr \<lparr>source = ''compliance'', matched_question = ''N/A'',
             answer = ''This is not really what I was trained for, therefore I cannot answer. Try again.'',
             similarity_score = None\<rparr>,
        [ClassificationInvoke ''What is the weather today?''])"
proof -
  have s: "strip '' What is the weather today? '' = ''What is the weather today?''"
    by (simp add: strip_def isspace_def)
  have n: "''What is the weather today?'' \<noteq> []"
    by simp
  have c: "\<not> fst (classify_question
      (example_world\<lparr>classification_chain_invoke := (\<lambda>q. Inr ''OFF_TOPIC'')\<rparr>)
      ''What is the weather today?'')"
    by code_simp
  show ?thesis
    using ask_question_off_topic [OF s n c] by (simp add: COMPLIANCE_MESSAGE_def)
qed

text \<open>
  C1, as stated: the question below is IT-related, its best row has similarity
  \<open>63/65 = 0.96923...\<close>, above the threshold 0.85, and the response carries
  \<open>similarity_score = 0.9692\<close>, which is not the score that was compared.
\<close>

theorem ask_question_exact_score_counterexample:
  "fst (search_similar_faq example_world ''How do I reset my password?'' None)
     = Inr (Some faq_reset, 63 / 65)
   \<and> similarity_threshold example_world \<le> 63 / 65
   \<and> fst (ask_question example_world ''How do I reset my password?'')
     = Inr \<lparr>source = ''local'', matched_question = ''How do I reset my password?'',
            answer = ''Use the reset link on the sign-in page.'',
            similarity_score = Some (2423 / 2500)\<rparr>
   \<and> (2423 / 2500 :: rat) \<noteq> 63 / 65"
  by code_simp

text \<open>
  C1, amended. For every IT-related question whose embedding succeeds and whose best row
  \<open>f\<close> has a similarity \<open>s\<close> with \<open>s \<ge> threshold\<close> (a score equal to the threshold
  qualifies; the comparison uses \<open>s\<close> unrounded), the handler returns the response with
  \<open>source = 'local'\<close>, the stored question and the stored answer of \<open>f\<close>, and
  \<open>similarity_score = round(s, 4)\<close>, which differs from \<open>s\<close> by at most 0.00005; the OpenAI
  answer is not called.
\<close>

theorem ask_question_local:
  assumes "strip raw = q" "q \<noteq> []" "fst (classify_question w q)"
    and "fst (search_similar_faq w q None) = Inr (Some f, s)"
    and "similarity_threshold w \<le> s"
  shows "fst (ask_question w raw) =
           Inr \<lparr>source = ''local'', matched_question = faq_question f,
                answer = faq_answer f, similarity_score = Some (py_round s 4)\<rparr>
         \<and> \<bar>py_round s 4 - s\<bar> \<le> 1 / 20000
         \<and> OpenAIAnswer q \<notin> set (snd (ask_question w raw))"
proof -
  obtain calls where sr: "search_similar_faq w q None = (Inr (Some f, s), calls)"
    using assms(4) by (cases "search_similar_faq w q None") auto
  have nc: "OpenAIAnswer q \<notin> set calls"
    using search_similar_faq_no_answer [of q w q None] sr by simp
  have "ask_question w raw =
           (Inr \<lparr>source = ''local'', matched_question = faq_question f,
                answer = faq_answer f, similarity_score = Some (py_round s 4)\<rparr>,
            ClassificationInvoke q # calls)"
    using assms(1,2,5) classify_true [OF assms(3)]
    by (simp add: ask_question_def route_question_def find_best_match_def sr)
  moreover have "\<bar>py_round s 4 - s\<bar> \<le> 1 / 20000"
    using py_round_error [of s 4] by simp
  ultimately show ?thesis using nc by simp
qed

theorem ask_question_local_witness:
  "fst (ask_question example_world ''  How do I reset my password? '')
     = Inr \<lparr>source = ''local'', matched_question = ''How do I reset my password?'',
            answer = ''Use the reset link on the sign-in page.'',
            similarity_score = Some (2423 / 2500)\<rparr>
   \<and> fst (ask_question (example_world\<lparr>similarity_threshold := 63 / 65\<rparr>)
          ''  How do I reset my password? '')
     = Inr \<lparr>source = ''local'', matched_question = ''How do I reset my password?'',
            answer = ''Use the reset link on the sign-in page.'',
            similarity_score = Some (2423 / 2500)\<rparr>
   \<and> \<bar>2423 / 2500 - 63 / 65 :: rat\<bar> \<le> 1 / 20000
   \<and> OpenAIAnswer ''How do I reset my password?''
       \<notin> set (snd (ask_question example_world ''  How do I reset my password? ''))"
proof -
  have n: "''How do I reset my password?'' \<noteq> []"
    by simp
  have c: "fst (classify_question example_world ''How do I reset my password?'')"
    and c': "fst (classify_question (example_world\<lparr>similarity_threshold := 63 / 65\<rparr>)
               ''How do I reset my password?'')"
    by code_simp+
  have m: "fst (search_similar_faq example_world ''How do I reset my password?'' None)
             = Inr (Some faq_reset, 63 / 65)"
    and m': "fst (search_similar_faq (example_world\<lparr>similarity_threshold := 63 / 65\<rparr>)
               ''How do I reset my password?'' None) = Inr (Some faq_reset, 63 / 65)"
    by code_simp+
  have t: "similarity_threshold example_world \<le> 63 / 65"
    and t': "similarity_threshold (example_world\<lparr>similarity_threshold := 63 / 65\<rparr>) \<le> 63 / 65"
    by (simp_all add: example_world_def)
  have r: "py_round (63 / 65) 4 = 2423 / 2500"
    by code_simp
  show ?thesis
    using ask_question_local [OF strip_example n c m t]
      ask_question_local [OF strip_example n c' m' t']
    by (simp add: r faq_reset_def)
qed

text \<open>
  C2, as stated: with the single row \<open>faq_email\<close> the best similarity is
  \<open>171/221 = 0.77375...\<close>, below the threshold, and the response of the generated path
  carries \<open>similarity_score = 0.7738\<close>, not the best score found.
\<close>

theorem ask_question_generated_score_counterexample:
  "fst (search_similar_faq (example_world\<lparr>faqs := [faq_email]\<rparr>)
          ''How do I reset my password?'' None)
     = Inr (Some faq_email, 171 / 221)
   \<and> 171 / 221 < similarity_threshold (example_world\<lparr>faqs := [faq_email]\<rparr>)
   \<and> fst (ask_question (example_world\<lparr>faqs := [faq_email]\<rparr>) ''How do I reset my password?'')
     = Inr \<lparr>source = ''openai'', matched_question = ''N/A'', answer = ''Generated answer.'',
            similarity_score = Some (3869 / 5000)\<rparr>
   \<and> (3869 / 5000 :: rat) \<noteq> 171 / 221"
  by code_simp

text \<open>
  C2, amended. For every IT-related question whose embedding succeeds, when the query
  returns no row, or a best row whose similarity \<open>s\<close> is below the threshold, and
  \<open>get_openai_answer\<close> returns \<open>a\<close>, the handler returns the response with
  \<open>source = 'openai'\<close> (the tag of the generated path), \<open>matched_question = 'N/A'\<close>, the
  answer \<open>a\<close>, and \<open>similarity_score = round(s, 4)\<close> when there was a best row, none when
  there was no row; the last outbound call is the OpenAI answer. When no row has an
  embedding, \<open>search_similar_faq\<close> returns no candidate and the score 0, not an error.
\<close>

theorem ask_question_generated:
  assumes "strip raw = q" "q \<noteq> []" "fst (classify_question w q)"
    and "fst (search_similar_faq w q None) = Inr (cand, s)"
    and "cand = None \<or> s < similarity_threshold w"
    and "get_openai_answer w q = Inr a"
  shows "fst (ask_question w raw) =
           Inr \<lparr>source = ''openai'', matched_question = ''N/A'', answer = a,
                similarity_score = (case cand of None \<Rightarrow> None | Some f \<Rightarrow> Some (py_round s 4))\<rparr>
         \<and> last (snd (ask_question w raw)) = OpenAIAnswer q
         \<and> (fst (generate_embedding w q) = Inr qe \<and> similarity_rows w qe coll = [] \<longrightarrow>
              fst (search_similar_faq w q coll) = Inr (None, 0))"
proof -
  obtain calls where sr: "search_similar_faq w q None = (Inr (cand, s), calls)"
    using assms(4) by (cases "search_similar_faq w q None") auto
  have "ask_question w raw =
           (Inr \<lparr>source = ''openai'', matched_question = ''N/A'', answer = a,
                similarity_score = (case cand of None \<Rightarrow> None | Some f \<Rightarrow> Some (py_round s 4))\<rparr>,
            ClassificationInvoke q # calls @ [OpenAIAnswer q])"
    using assms(1,2,5,6) classify_true [OF assms(3)]
    by (cases cand) (auto simp: ask_question_def route_question_def find_best_match_def sr)
  then show ?thesis
    using search_similar_faq_empty [of w q qe coll] by simp
qed

theorem ask_question_generated_witness:
  "fst (ask_question (example_world\<lparr>faqs := [faq_email]\<rparr>) ''  How do I reset my password? '')
     = Inr \<lparr>source = ''openai'', matched_question = ''N/A'', answer = ''Generated answer.'',
            similarity_score = Some (3869 / 5000)\<rparr>
   \<and> fst (ask_question (example_world\<lparr>faqs := []\<rparr>) ''  How do I reset my password? '')
     = Inr \<lparr>source = ''openai'', matched_question = ''N/A'', answer = ''Generated answer.'',
            similarity_score = None\<rparr>
   \<and> fst (search_similar_faq (example_world\<lparr>faqs := []\<rparr>) ''How do I reset my password?'' None)
     = Inr (None, 0)
   \<and> fst (search_similar_faq (example_world\<lparr>faqs := [faq_email]\<rparr>)
          ''How do I reset my password?'' (Some ''billing''))
     = Inr (None, 0)"
proof -
  have n: "''How do I reset my password?'' \<noteq> []"
    by simp
  have c1: "fst (classify_question (example_world\<lparr>faqs := [faq_email]\<rparr>)
              ''How do I reset my password?'')"
    and c2: "fst (classify_question (example_world\<lparr>faqs := []\<rparr>)
              ''How do I reset my password?'')"
    by code_simp+
  have m1: "fst (search_similar_faq (example_world\<lparr>faqs := [faq_email]\<rparr>)
              ''How do I reset my password?'' None) = Inr (Some faq_email, 171 / 221)"
    and m2: "fst (search_similar_faq (example_world\<lparr>faqs := []\<rparr>)
              ''How do I reset my password?'' None) = Inr (None, 0)"
    by code_simp+
  have t1: "Some faq_email = None \<or> 171 / 221 < similarity_threshold (example_world\<lparr>faqs := [faq_email]\<rparr>)"
    and t2: "(None :: FAQ option) = None \<or> 0 < similarity_threshold (example_world\<lparr>faqs := []\<rparr>)"
    by (simp_all add: example_world_def)
  have a1: "get_openai_answer (example_world\<lparr>faqs := [faq_email]\<rparr>)
              ''How do I reset my password?'' = Inr ''Generated answer.''"
    and a2: "get_openai_answer (example_world\<lparr>faqs := []\<rparr>)
              ''How do I reset my password?'' = Inr ''Generated answer.''"
    by (simp_all add: example_world_def)
  have g1: "fst (generate_embedding (example_world\<lparr>faqs := [faq_email]\<rparr>)
              ''How do I reset my password?'') = Inr [5, 12]"
    and e1: "similarity_rows (example_world\<lparr>faqs := [faq_email]\<rparr>) [5, 12] (Some ''billing'')
               = []"
    and g2: "fst (generate_embedding (example_world\<lparr>faqs := []\<rparr>)
              ''How do I reset my password?'') = Inr [5, 12]"
    and e2: "similarity_rows (example_world\<lparr>faqs := []\<rparr>) [5, 12] None = []"
    by code_simp+
  have r: "py_round (171 / 221) 4 = 3869 / 5000"
    by code_simp
  show ?thesis
    using
      ask_question_generated [OF strip_example n c1 m1 t1 a1, of "[5, 12]" "Some ''billing''"]
      ask_question_generated [OF strip_example n c2 m2 t2 a2, of "[5, 12]" None]
      g1 e1 g2 e2
    by (simp add: r)
qed

text \<open>
  C9. For every question that is empty after \<open>strip()\<close>, the handler raises
  \<open>HTTPException\<close> with status 400 and makes no outbound call; the route as a whole answers
  with a status between 400 and 499 (422 from the schema when the text is empty or longer
  than 1000 characters, 400 from the handler otherwise), again with no outbound call.
\<close>

theorem ask_question_empty_rejected:
  assumes "strip raw = []"
  shows "ask_question w raw = (Inl (HTTPException 400 ''Question cannot be empty''), [])
     \<and> (\<exists>e. post_ask_question w raw = (Inl e, [])
            \<and> 400 \<le> status_code e \<and> status_code e < 500)"
proof -
  have a: "ask_question w raw = (Inl (HTTPException 400 ''Question cannot be empty''), [])"
    using assms by (simp add: ask_question_def)
  show ?thesis
  proof (cases "QuestionRequest_valid raw")
    case True
    then show ?thesis by (simp add: a post_ask_question_def)
  next
    case False
    then show ?thesis by (simp add: a post_ask_question_def)
  qed
qed

theorem ask_question_empty_rejected_witness:
  "ask_question example_world ''   '' = (Inl (HTTPException 400 ''Question cannot be empty''), [])
   \<and> post_ask_question example_world ''   ''
       = (Inl (HTTPException 400 ''Question cannot be empty''), [])
   \<and> status_code (HTTPException 400 ''Question cannot be empty'') = 400"
proof -
  have s: "strip ''   '' = []"
    by (simp add: strip_def isspace_def)
  show ?thesis
    using ask_question_empty_rejected [OF s, of example_world]
    by (simp add: post_ask_question_def QuestionRequest_valid_def)
qed

text \<open>
  C10. A request whose \<open>user_question\<close> is the empty string or longer than 1000 characters
  is rejected by the schema and the handler does not run; whenever the route is not
  rejected by the schema (in particular whenever any outbound call is made), the question
  has between 1 and 1000 characters and the route's result is the handler's.
\<close>

theorem post_ask_question_length_bounds:
  "(raw = [] \<or> 1000 < length raw \<longrightarrow>
      post_ask_question w raw = (Inl RequestValidationError, []))
   \<and> (post_ask_question w raw \<noteq> (Inl RequestValidationError, []) \<longrightarrow>
      1 \<le> length raw \<and> length raw \<le> 1000
      \<and> post_ask_question w raw = ask_question w raw)
   \<and> (snd (post_ask_question w raw) \<noteq> [] \<longrightarrow> 1 \<le> length raw \<and> length raw \<le> 1000)"
  by (auto simp: post_ask_question_def QuestionRequest_valid_def)

theorem post_ask_question_length_bounds_witness:
  "post_ask_question example_world [] = (Inl RequestValidationError, [])
   \<and> post_ask_question example_world (replicate 1001 CHR ''a'') = (Inl RequestValidationError, [])
   \<and> post_ask_question example_world ''How do I reset my password?''
       = ask_question example_world ''How do I reset my password?''
   \<and> length ''How do I reset my password?'' = 27"
proof -
  have v: "post_ask_question example_world ''How do I reset my password?''
             \<noteq> (Inl RequestValidationError, [])"
    by code_simp
  show ?thesis
    using post_ask_question_length_bounds [of "[]" example_world]
      post_ask_question_length_bounds [of "replicate 1001 CHR ''a''" example_world]
      post_ask_question_length_bounds [of "''How do I reset my password?''" example_world] v
    by simp
qed

section \<open>The matcher: the best row\<close>

lemma order_by_desc_first_None: "order_by_desc_first rows = None \<longleftrightarrow> rows = []"
  by (induction rows) (auto split: option.splits)

lemma order_by_desc_first_first:
  "order_by_desc_first rows = Some b \<Longrightarrow>
     \<exists>pre post. rows = pre @ b # post \<and> (\<forall>r\<in>set pre. snd r < snd b)
        \<and> (\<forall>r\<in>set post. snd r \<le> snd b)"
proof (induction rows arbitrary: b)
  case Nil
  then show ?case by simp
next
  case (Cons r rs)
  show ?case
  proof (cases "order_by_desc_first rs")
    case None
    then have "rs = []" by (simp add: order_by_desc_first_None)
    with Cons.prems None have "r # rs = [] @ b # []" by simp
    then show ?thesis by fastforce
  next
    case (Some c)
    from Cons.IH [OF Some] obtain pre post where
      rs: "rs = pre @ c # post" and pre: "\<forall>x\<in>set pre. snd x < snd c"
      and post: "\<forall>x\<in>set post. snd x \<le> snd c"
      by blast
    show ?thesis
    proof (cases "snd r < snd c")
      case True
      with Cons.prems Some have b: "b = c" by simp
      have "r # rs = (r # pre) @ b # post" by (simp add: rs b)
      moreover have "\<forall>x\<in>set (r # pre). snd x < snd b" using True pre b by simp
      ultimately show ?thesis using post b by blast
    next
      case False
      with Cons.prems Some have b: "b = r" by simp
      have "\<forall>x\<in>set rs. snd x \<le> snd b"
        using False pre post rs b by fastforce
      then have "r # rs = [] @ b # rs \<and> (\<forall>x\<in>set []. snd x < snd b) \<and> (\<forall>x\<in>set rs. snd x \<le> snd b)"
        by (simp add: b)
      then show ?thesis by blast
    qed
  qed
qed

lemma order_by_desc_first_max:
  assumes "order_by_desc_first rows = Some b"
  shows "b \<in> set rows \<and> (\<forall>r\<in>set rows. snd r \<le> snd b)"
proof -
  from order_by_desc_first_first [OF assms] obtain pre post where
    "rows = pre @ b # post" "\<forall>r\<in>set pre. snd r < snd b" "\<forall>r\<in>set post. snd r \<le> snd b"
    by blast
  then show ?thesis by fastforce
qed

lemma order_by_desc_first_unique:
  assumes "order_by_desc_first rows = Some b"
    and "set rows' = set rows"
    and "\<forall>r\<in>set rows. r \<noteq> b \<longrightarrow> snd r < snd b"
  shows "order_by_desc_first rows' = Some b"
proof -
  have "b \<in> set rows'"
    using order_by_desc_first_max [OF assms(1)] assms(2) by simp
  then have "rows' \<noteq> []" by auto
  then obtain c where c: "order_by_desc_first rows' = Some c"
    using order_by_desc_first_None [of rows'] by (cases "order_by_desc_first rows'") auto
  from order_by_desc_first_max [OF c] have "c \<in> set rows" "snd b \<le> snd c"
    using assms(2) \<open>b \<in> set rows'\<close> by auto
  then have "c = b" using assms(3) by force
  with c show ?thesis by simp
qed

text \<open>The rows compared are exactly the stored rows with an embedding that pass the
  collection filter, each with the similarity the distance operator gives.\<close>

lemma in_set_map_filter:
  "y \<in> set (List.map_filter g xs) \<longleftrightarrow> (\<exists>x\<in>set xs. g x = Some y)"
  by (induction xs) (auto split: option.splits)

lemma in_similarity_rows:
  "(f, s) \<in> set (similarity_rows w qe coll) \<longleftrightarrow>
     f \<in> set (faqs w) \<and> collection_filter coll f
     \<and> (\<exists>e. faq_embedding f = Some e \<and> s = 1 - cosine_distance w e qe)"
  by (auto simp: similarity_rows_def in_set_map_filter split: option.splits if_splits)

lemma set_similarity_rows_cong:
  assumes "set (faqs w') = set (faqs w)" "cosine_distance w' = cosine_distance w"
  shows "set (similarity_rows w' qe coll) = set (similarity_rows w qe coll)"
proof -
  have "r \<in> set (similarity_rows w' qe coll) \<longleftrightarrow> r \<in> set (similarity_rows w qe coll)" for r
    using assms by (cases r) (simp add: in_similarity_rows)
  then show ?thesis by blast
qed

text \<open>
  C7, as stated: \<open>faq_reset\<close> (id 1) and \<open>faq_recover\<close> (id 4) have the same embedding and
  tie at \<open>63/65\<close>. When the database delivers the row with id 4 before the row with id 1,
  the matcher returns the row with id 4, not the one inserted first; with the two rows
  delivered in the other order it returns the row with id 1. The query orders by
  similarity alone, so the same corpus gives two different best candidates.
\<close>

theorem search_similar_faq_tie_counterexample:
  "similarity_rows (example_world\<lparr>faqs := [faq_recover, faq_reset]\<rparr>) [5, 12] None
     = [(faq_recover, 63 / 65), (faq_reset, 63 / 65)]
   \<and> faq_id faq_reset < faq_id faq_recover
   \<and> fst (search_similar_faq (example_world\<lparr>faqs := [faq_recover, faq_reset]\<rparr>)
          ''How do I reset my password?'' None)
     = Inr (Some faq_recover, 63 / 65)
   \<and> fst (search_similar_faq (example_world\<lparr>faqs := [faq_reset, faq_recover]\<rparr>)
          ''How do I reset my password?'' None)
     = Inr (Some faq_reset, 63 / 65)"
  by code_simp

text \<open>
  C7, amended. Given the question embedding and the rows as the database orders them,
  the matcher returns a row of greatest similarity together with that similarity: no
  compared row has a higher one, and no row before it in the database's order has an equal
  one. When the returned row is strictly above every other compared row, any other order
  of the same rows gives the same candidate and score. Among rows that tie, the code adds
  no tie-break of its own: the database's order decides.
\<close>

theorem search_similar_faq_best:
  assumes "order_by_desc_first (similarity_rows w qe coll) = Some (f, s)"
  shows "(f, s) \<in> set (similarity_rows w qe coll)
     \<and> (\<forall>r\<in>set (similarity_rows w qe coll). snd r \<le> s)
     \<and> (\<exists>pre post. similarity_rows w qe coll = pre @ (f, s) # post
           \<and> (\<forall>r\<in>set pre. snd r < s))
     \<and> (set (faqs w') = set (faqs w) \<and> cosine_distance w' = cosine_distance w
          \<and> (\<forall>r\<in>set (similarity_rows w qe coll). r \<noteq> (f, s) \<longrightarrow> snd r < s)
          \<longrightarrow> order_by_desc_first (similarity_rows w' qe coll) = Some (f, s))
     \<and> (fst (generate_embedding w q) = Inr qe \<longrightarrow>
          fst (search_similar_faq w q coll) = Inr (Some f, s))"
proof -
  have a: "(f, s) \<in> set (similarity_rows w qe coll)
     \<and> (\<forall>r\<in>set (similarity_rows w qe coll). snd r \<le> s)"
    using order_by_desc_first_max [OF assms] by simp
  have b: "\<exists>pre post. similarity_rows w qe coll = pre @ (f, s) # post
           \<and> (\<forall>r\<in>set pre. snd r < s)"
    using order_by_desc_first_first [OF assms] by auto
  have c: "order_by_desc_first (similarity_rows w' qe coll) = Some (f, s)"
    if "set (faqs w') = set (faqs w)" "cosine_distance w' = cosine_distance w"
      "\<forall>r\<in>set (similarity_rows w qe coll). r \<noteq> (f, s) \<longrightarrow> snd r < s"
    using order_by_desc_first_unique [OF assms set_similarity_rows_cong [OF that(1,2)]] that(3)
    by simp
  have d: "fst (search_similar_faq w q coll) = Inr (Some f, s)"
    if "fst (generate_embedding w q) = Inr qe"
    using that assms by (cases "generate_embedding w q") (simp add: search_similar_faq_def)
  show ?thesis
    using a b c d by blast
qed

theorem search_similar_faq_best_witness:
  "order_by_desc_first
      (similarity_rows (example_world\<lparr>faqs := [faq_email, faq_reset]\<rparr>) [5, 12] None)
     = Some (faq_reset, 63 / 65)
   \<and> fst (search_similar_faq example_world ''How do I reset my password?'' None)
     = Inr (Some faq_reset, 63 / 65)
   \<and> (faq_reset, 63 / 65) \<in> set (similarity_rows example_world [5, 12] None)"
proof -
  have rows: "similarity_rows example_world [5, 12] None
                = [(faq_reset, 63 / 65), (faq_email, 171 / 221)]"
    by code_simp
  have h: "order_by_desc_first (similarity_rows example_world [5, 12] None)
             = Some (faq_reset, 63 / 65)"
    by code_simp
  have s: "set (faqs (example_world\<lparr>faqs := [faq_email, faq_reset]\<rparr>)) = set (faqs example_world)"
    by (auto simp: example_world_def)
  have d: "cosine_distance (example_world\<lparr>faqs := [faq_email, faq_reset]\<rparr>)
             = cosine_distance example_world"
    by simp
  have u: "\<forall>r\<in>set (similarity_rows example_world [5, 12] None).
             r \<noteq> (faq_reset, 63 / 65) \<longrightarrow> snd r < 63 / 65"
    by (simp add: rows)
  have g: "fst (generate_embedding example_world ''How do I reset my password?'') = Inr [5, 12]"
    by code_simp
  show ?thesis
    using search_similar_faq_best
      [OF h, of "example_world\<lparr>faqs := [faq_email, faq_reset]\<rparr>"
         "''How do I reset my password?''"] s d u g
    by blast
qed




end
